theory Spec2Isabelle
  imports Complex_Main
begin

section \<open>Number and date model\<close>

text \<open>
  JavaScript numbers are modelled as exact reals: the IEEE-754 rounding of each
  operation is not part of the model, and neither are NaN and the infinities. Where the
  source would produce NaN or read \<^verbatim>\<open>undefined\<close>, the model returns an explicit failure
  value instead of a number.

  A sample's date is the string \<^verbatim>\<open>YYYY-MM-DD\<close> cut from \<^verbatim>\<open>toISOString()\<close>. It is kept as
  its three numeric fields. Such a string is never empty, so it is truthy wherever the
  source tests a date.
\<close>

datatype date = Date (d_year: int) (d_month: int) (d_day: int)

text \<open>
  The number of days from 1970-01-01 to a civil date of the proleptic Gregorian calendar
  (the calendar of the JavaScript \<^verbatim>\<open>Date\<close> object): March-based years inside 400-year
  eras of 146097 days.
\<close>

definition days_from_civil :: "int \<Rightarrow> int \<Rightarrow> int \<Rightarrow> int" where
  "days_from_civil y m d =
     (let y' = (if m \<le> 2 then y - 1 else y);
          era = y' div 400;
          yoe = y' - era * 400;
          doy = (153 * (m + (if m > 2 then - 3 else 9)) + 2) div 5 + d - 1;
          doe = yoe * 365 + yoe div 4 - yoe div 100 + doy
      in era * 146097 + doe - 719468)"

text \<open>
  \<^verbatim>\<open>new Date(dateStr)\<close> of a date-only string is midnight UTC of that day; \<open>epochDay\<close> is
  its time value divided by the 86400000 milliseconds of a day.
\<close>

definition epochDay :: "date \<Rightarrow> int" where
  "epochDay dt = days_from_civil (d_year dt) (d_month dt) (d_day dt)"

record sample =
  s_date :: date
  s_value :: real
  s_confidence :: real

section \<open>Smoother: \<^verbatim>\<open>movingAverage\<close>\<close>

text \<open>
  The inner loop runs \<open>j\<close> from \<open>i - half\<close> to \<open>i + half\<close> and adds \<open>values[j]\<close> to \<open>sum\<close>,
  counting it, only when \<open>j\<close> is a valid index. \<open>window_step\<close> is one iteration on the
  pair \<open>(sum, count)\<close>.
\<close>

definition window_step :: "real list \<Rightarrow> int \<Rightarrow> real \<times> nat \<Rightarrow> real \<times> nat" where
  "window_step values j acc =
     (if 0 \<le> j \<and> j < int (length values)
      then (fst acc + values ! nat j, snd acc + 1) else acc)"

definition window_acc :: "real list \<Rightarrow> int \<Rightarrow> int \<Rightarrow> real \<times> nat" where
  "window_acc values i half = fold (window_step values) [i - half .. i + half] (0, 0)"

definition movingAverage :: "real list \<Rightarrow> int \<Rightarrow> real list" where
  "movingAverage values windowSize =
     (let half = windowSize div 2
      in map (\<lambda>i. let acc = window_acc values (int i) half
                  in if snd acc \<noteq> 0 then fst acc / real (snd acc) else values ! i)
             [0 ..< length values])"



section \<open>BloomDetector: \<^verbatim>\<open>detectBloom\<close>\<close>

record bloom_event =
  onsetDate :: "date option"
  peakDate :: "date option"
  endDate :: "date option"
  peakValue :: "real option"
  durationDays :: "int option"
  confidence :: real

definition emptyDetection :: bloom_event where
  "emptyDetection =
     \<lparr>onsetDate = None, peakDate = None, endDate = None, peakValue = None,
      durationDays = None, confidence = 0.5\<rparr>"

text \<open>
  \<^verbatim>\<open>sorted[Math.floor(q * (sorted.length - 1))]\<close>: the rank read for the percentile \<open>q\<close>.
  It is only used on a non-empty array.
\<close>

definition percentileIndex :: "real \<Rightarrow> nat \<Rightarrow> nat" where
  "percentileIndex q n = nat \<lfloor>q * real_of_int (int n - 1)\<rfloor>"

text \<open>
  The onset loop: \<open>i\<close> from 1 upwards, stopping at the first rising crossing; \<open>-1\<close> when
  the loop ends without one.
\<close>

definition onsetIdx :: "real list \<Rightarrow> real \<Rightarrow> int" where
  "onsetIdx values threshold =
     (case find (\<lambda>i. values ! (i - 1) < threshold \<and> values ! i \<ge> threshold)
                [1 ..< length values] of
        None \<Rightarrow> - 1
      | Some i \<Rightarrow> int i)"

text \<open>
  \<^verbatim>\<open>values.reduce((best, v, i) => v > values[best] ? i : best, 0)\<close>: a left fold over
  the elements with their indices.
\<close>

definition peakIdx :: "real list \<Rightarrow> nat" where
  "peakIdx values =
     fold (\<lambda>(i, v) best. if v > values ! best then i else best) (enumerate 0 values) 0"

text \<open>
  The end loop: \<open>i\<close> from \<open>length - 2\<close> down to \<open>peakIdx + 1\<close>, stopping at the first
  falling crossing, where it stores \<open>i + 1\<close>; \<open>-1\<close> when the loop ends without one.
\<close>

definition endIdx :: "real list \<Rightarrow> real \<Rightarrow> nat \<Rightarrow> int" where
  "endIdx values threshold pk =
     (case find (\<lambda>i. values ! (i + 1) < threshold \<and> values ! i \<ge> threshold)
                (rev [pk + 1 ..< length values - 1]) of
        None \<Rightarrow> - 1
      | Some i \<Rightarrow> int i + 1)"

text \<open>
  The percentiles and the threshold of lines 586 to 589: \<open>p10_of\<close> and \<open>p90_of\<close> read the
  ascending-sorted copy of the values at the floor-indexed ranks, and \<open>threshold_of\<close> is
  \<^verbatim>\<open>p10 + 0.4 * (p90 - p10)\<close>.

  Two ways a call leaves the real-valued model. \<open>NaNResult\<close>: \<open>smoothedValues\<close> is empty
  while \<open>series\<close> is not, so the percentiles are \<^verbatim>\<open>undefined\<close> and the confidence of the
  returned object is NaN. \<open>TypeError\<close>: \<^verbatim>\<open>series[onsetIdx].date\<close> or
  \<^verbatim>\<open>series[endIdx].date\<close> reads a field of \<^verbatim>\<open>undefined\<close> because \<open>series\<close> is shorter than
  \<open>smoothedValues\<close>. The read \<^verbatim>\<open>series[peakIdx]?.date || null\<close> does not throw.

  The duration of line 609 divides the difference of two midnights UTC by the length of a
  day: it is the difference of the two day numbers, floored at 0 by \<^verbatim>\<open>Math.max\<close>.
\<close>

datatype js_failure = TypeError | NaNResult

definition p10_of :: "real list \<Rightarrow> real" where
  "p10_of values = (let sorted = sort values in sorted ! percentileIndex 0.10 (length sorted))"

definition p90_of :: "real list \<Rightarrow> real" where
  "p90_of values = (let sorted = sort values in sorted ! percentileIndex 0.90 (length sorted))"

definition threshold_of :: "real list \<Rightarrow> real" where
  "threshold_of values = p10_of values + 0.4 * (p90_of values - p10_of values)"

definition detectBloom :: "sample list \<Rightarrow> real list \<Rightarrow> js_failure + bloom_event" where
  "detectBloom series smoothedValues =
     (if series = [] then Inr emptyDetection
      else if smoothedValues = [] then Inl NaNResult
      else
        let values = smoothedValues;
            p10 = p10_of values;
            p90 = p90_of values;
            threshold = threshold_of values;
            onsetI = onsetIdx values threshold;
            peakI = peakIdx values;
            endI = endIdx values threshold peakI
        in if (0 \<le> onsetI \<and> length series \<le> nat onsetI)
              \<or> (0 \<le> endI \<and> length series \<le> nat endI)
           then Inl TypeError
           else
             let onsetD = (if 0 \<le> onsetI then Some (s_date (series ! nat onsetI)) else None);
                 peakD = (if peakI < length series then Some (s_date (series ! peakI)) else None);
                 endD = (if 0 \<le> endI then Some (s_date (series ! nat endI)) else None);
                 duration = (case (onsetD, endD) of
                               (Some od, Some ed) \<Rightarrow> Some (max 0 (epochDay ed - epochDay od))
                             | _ \<Rightarrow> None);
                 spread = max 0 (p90 - p10);
                 completeness = (if onsetD \<noteq> None \<and> peakD \<noteq> None \<and> endD \<noteq> None
                                 then 1 else 0.6);
                 conf = max 0.5 (min 0.95 (0.5 + spread * 0.8)) * completeness
             in Inr \<lparr>onsetDate = onsetD, peakDate = peakD, endDate = endD,
                     peakValue = Some (values ! peakI), durationDays = duration,
                     confidence = conf\<rparr>)"


text \<open>
  The specification's wording of the end of a bloom, for comparison: a falling crossing
  at \<open>i\<close> is \<open>smoothed[i+1] < threshold \<le> smoothed[i]\<close>; the first one met when \<open>i\<close> is
  scanned from \<open>n - 2\<close> down to \<open>peakIndex + 1\<close> has no falling crossing above it.
\<close>

definition fallingCrossing :: "real list \<Rightarrow> real \<Rightarrow> nat \<Rightarrow> bool" where
  "fallingCrossing smoothed threshold i \<longleftrightarrow>
     smoothed ! (i + 1) < threshold \<and> threshold \<le> smoothed ! i"

definition firstFallingCrossing :: "real list \<Rightarrow> real \<Rightarrow> nat \<Rightarrow> nat \<Rightarrow> bool" where
  "firstFallingCrossing smoothed threshold peakIndex i \<longleftrightarrow>
     peakIndex < i \<and> i + 2 \<le> length smoothed \<and> fallingCrossing smoothed threshold i
     \<and> (\<forall>j \<in> set [i + 1 ..< length smoothed - 1]. \<not> fallingCrossing smoothed threshold j)"

definition noFallingCrossing :: "real list \<Rightarrow> real \<Rightarrow> nat \<Rightarrow> bool" where
  "noFallingCrossing smoothed threshold peakIndex \<longleftrightarrow>
     (\<forall>i \<in> set [peakIndex + 1 ..< length smoothed - 1]. \<not> fallingCrossing smoothed threshold i)"

section \<open>YearlyAggregator: the \<^verbatim>\<open>/api/phenology\<close> handler\<close>

text \<open>
  \<^verbatim>\<open>dayOfYear\<close> subtracts from the date the instant \<^verbatim>\<open>new Date(year, 0, 0)\<close>, day 0 of
  January, which is 31 December of the year before, and floors the quotient by the length
  of a day. The process is taken to run in UTC, where both instants are midnights and
  the quotient is a whole number of days.
\<close>

definition dayOfYear :: "date \<Rightarrow> int" where
  "dayOfYear d = epochDay d - days_from_civil (d_year d) 1 0"

text \<open>\<^verbatim>\<open>Math.round\<close>: the nearest integer, a half rounded up.\<close>

definition js_round :: "real \<Rightarrow> int" where
  "js_round x = \<lfloor>x + 1/2\<rfloor>"

record yearly_record =
  year :: int
  onset_date :: "date option"
  peak_date :: "date option"
  end_date :: "date option"
  peak_value :: "real option"
  duration_days :: "int option"
  y_confidence :: real

record phenology_summary =
  num_years :: nat
  years_with_bloom :: nat
  median_peak_day_of_year :: "int option"

text \<open>
  The payload keeps the query strings of the location; \<^verbatim>\<open>parseFloat\<close> is not modelled.
\<close>

record phenology_payload =
  location :: "string \<times> string"
  p_index_type :: string
  years :: "yearly_record list"
  summary :: phenology_summary

text \<open>
  \<^verbatim>\<open>getMultiSourceVegetationData(lat, lon, startDate, endDate, indexType)\<close> draws random
  numbers, so the source of samples is a parameter of the model.
\<close>

type_synonym sample_source = "string \<Rightarrow> string \<Rightarrow> date \<Rightarrow> date \<Rightarrow> string \<Rightarrow> sample list"

text \<open>Line 531: the series of a year is smoothed with a window of 5.\<close>

definition smoothSeries :: "sample list \<Rightarrow> real list" where
  "smoothSeries series = movingAverage (map s_value series) 5"

definition yearRecord :: "int \<Rightarrow> bloom_event \<Rightarrow> yearly_record" where
  "yearRecord y detection =
     \<lparr>year = y, onset_date = onsetDate detection, peak_date = peakDate detection,
      end_date = endDate detection, peak_value = peakValue detection,
      duration_days = durationDays detection, y_confidence = confidence detection\<rparr>"

text \<open>
  The loop over the years, on the list of the years left and the records pushed so far.
  A failure of the detector would leave the loop through the handler's \<^verbatim>\<open>catch\<close>.
\<close>

fun perYearLoop :: "(int \<Rightarrow> sample list) \<Rightarrow> int list \<Rightarrow> yearly_record list
                      \<Rightarrow> js_failure + yearly_record list" where
  "perYearLoop fetch [] perYear = Inr perYear"
| "perYearLoop fetch (y # ys) perYear =
     (let series = fetch y;
          smoothed = smoothSeries series
      in case detectBloom series smoothed of
           Inl e \<Rightarrow> Inl e
         | Inr detection \<Rightarrow> perYearLoop fetch ys (perYear @ [yearRecord y detection]))"

text \<open>Lines 545 to 557: the summary of the yearly records.\<close>

definition summarize :: "yearly_record list \<Rightarrow> phenology_summary" where
  "summarize perYear =
     (let withPeak = filter (\<lambda>y. peak_date y \<noteq> None) perYear;
          peakDoys = map (\<lambda>y. dayOfYear (the (peak_date y))) withPeak;
          medianPeakDoy =
            (if length peakDoys \<noteq> 0
             then Some (js_round (real_of_int (sort peakDoys ! (length peakDoys div 2))))
             else None)
      in \<lparr>num_years = length perYear, years_with_bloom = length withPeak,
          median_peak_day_of_year = medianPeakDoy\<rparr>)"

text \<open>Lines 526 to 558: what the handler computes when the cache has no payload.\<close>

definition computePhenology :: "sample_source \<Rightarrow> string \<Rightarrow> string \<Rightarrow> int \<Rightarrow> int \<Rightarrow> string
                                  \<Rightarrow> js_failure + phenology_payload" where
  "computePhenology src la lo sy ey it =
     (case perYearLoop (\<lambda>y. src la lo (Date y 1 1) (Date y 12 31) it) [sy .. ey] [] of
        Inl e \<Rightarrow> Inl e
      | Inr perYear \<Rightarrow>
          Inr \<lparr>location = (la, lo), p_index_type = it, years = perYear,
               summary = summarize perYear\<rparr>)"

text \<open>
  The handler. A query parameter is \<open>None\<close> when it is absent or empty, which is what
  the test \<^verbatim>\<open>!lat || !lon || !start_year || !end_year\<close> rejects; \<open>start_year\<close> and
  \<open>end_year\<close> hold the integers that \<^verbatim>\<open>parseInt\<close> reads, and a parameter that does not
  parse to a number is outside the model. The cache is a map from the five components of
  the cache key to the payload stored under it. A response is the JSON payload or a
  status with its error message.
\<close>

datatype response = Json phenology_payload | Error nat string

record phenology_query =
  lat :: "string option"
  lon :: "string option"
  start_year :: "int option"
  end_year :: "int option"
  index_type :: "string option"

type_synonym cache = "string \<times> string \<times> int \<times> int \<times> string \<rightharpoonup> phenology_payload"

definition phenology :: "sample_source \<Rightarrow> cache \<Rightarrow> phenology_query \<Rightarrow> response \<times> cache" where
  "phenology src cache q =
     (case (lat q, lon q, start_year q, end_year q) of
        (Some la, Some lo, Some sy, Some ey) \<Rightarrow>
          if ey < sy then (Error 400 ''end_year must be >= start_year'', cache)
          else
            let it = (case index_type q of None \<Rightarrow> ''NDVI'' | Some t \<Rightarrow> t);
                cacheKey = (la, lo, sy, ey, it)
            in (case cache cacheKey of
                  Some payload \<Rightarrow> (Json payload, cache)
                | None \<Rightarrow>
                    (case computePhenology src la lo sy ey it of
                       Inl e \<Rightarrow> (Error 500 ''Failed to compute phenology'', cache)
                     | Inr payload \<Rightarrow> (Json payload, cache(cacheKey \<mapsto> payload))))
      | _ \<Rightarrow> (Error 400 ''lat, lon, start_year, end_year are required'', cache))"

text \<open>
  The specification's wording of the median, for comparison: the days of the year of the
  peaks of the records that have one, and the element at index \<open>\<lfloor>count/2\<rfloor>\<close> of their
  ascending sort, or null when there is none.
\<close>

definition peakDaysOfYear :: "yearly_record list \<Rightarrow> int list" where
  "peakDaysOfYear records = map dayOfYear (List.map_filter peak_date records)"

definition middleElement :: "int list \<Rightarrow> int option" where
  "middleElement xs = (if xs = [] then None else Some (sort xs ! (length xs div 2)))"

section \<open>TrendAnalyzer: \<^verbatim>\<open>analyzeTrends\<close>\<close>

record trend_report =
  direction :: string
  magnitude :: real
  t_confidence :: real
  significance :: string

text \<open>
  The three shapes of the result: the object \<^verbatim>\<open>{trend: 'Insufficient data', confidence: 0}\<close>,
  the report, and the report of a slope that is NaN (direction Decreasing, magnitude
  \<^verbatim>\<open>'NaN'\<close>, Not significant), which the real-valued record cannot hold.
\<close>

datatype trend_result =
    Insufficient string real
  | Trend trend_report
  | TrendNaN

text \<open>
  \<^verbatim>\<open>x.toFixed(4)\<close> of a number \<open>x \<ge> 0\<close>: the decimal string with four digits after the
  point, a half rounded up. The string is represented by the number it denotes.
\<close>

definition toFixed4 :: "real \<Rightarrow> real" where
  "toFixed4 x = real_of_int \<lfloor>x * 10000 + 1/2\<rfloor> / 10000"

text \<open>
  Lines 922 to 930. \<open>sumY\<close> is computed by the same reduction as \<open>sumXY\<close>, as in the
  source. A zero denominator makes the quotient NaN, here \<open>None\<close>.
\<close>

definition calculateLinearTrend :: "real list \<Rightarrow> real option" where
  "calculateLinearTrend values =
     (let n = real (length values);
          sumX = (n * (n - 1)) / 2;
          sumY = fold (\<lambda>(i, val) sum. sum + val * real i) (enumerate 0 values) 0;
          sumXY = fold (\<lambda>(i, val) sum. sum + val * real i) (enumerate 0 values) 0;
          sumX2 = fold (\<lambda>(i, val) sum. sum + real i * real i) (enumerate 0 values) 0
      in if n * sumX2 - sumX * sumX = 0 then None
         else Some ((n * sumXY - sumX * sumY) / (n * sumX2 - sumX * sumX)))"

text \<open>
  \<open>rnd\<close> is the number that \<^verbatim>\<open>Math.random()\<close> returns for the confidence.
\<close>

definition analyzeTrends :: "sample list \<Rightarrow> real \<Rightarrow> trend_result" where
  "analyzeTrends data rnd =
     (if length data < 2 then Insufficient ''Insufficient data'' 0
      else
        let values = map s_value data
        in case calculateLinearTrend values of
             None \<Rightarrow> TrendNaN
           | Some trend \<Rightarrow>
               Trend \<lparr>direction = (if trend > 0 then ''Increasing'' else ''Decreasing''),
                      magnitude = toFixed4 \<bar>trend\<bar>,
                      t_confidence = 0.85 + rnd * 0.1,
                      significance = (if trend > 0.01 then ''Significant''
                                      else ''Not significant'')\<rparr>)"

text \<open>
  The specification's wording, for comparison: the ordinary-least-squares slope of the
  values against their indices \<open>0 .. n - 1\<close>.
\<close>

definition olsSlope :: "real list \<Rightarrow> real" where
  "olsSlope v =
     (let n = real (length v);
          sx = (\<Sum>i \<leftarrow> [0 ..< length v]. real i);
          sy = (\<Sum>i \<leftarrow> [0 ..< length v]. v ! i);
          sxy = (\<Sum>i \<leftarrow> [0 ..< length v]. real i * v ! i);
          sxx = (\<Sum>i \<leftarrow> [0 ..< length v]. real i * real i)
      in (n * sxy - sx * sy) / (n * sxx - sx * sx))"

section \<open>AnomalyDetector: \<^verbatim>\<open>detectAnomalies\<close>\<close>





section \<open>Concrete series\<close>

text \<open>
  Daily samples of January 2024, used where a property is evaluated on a concrete input.
\<close>

definition day :: "int \<Rightarrow> real \<Rightarrow> sample" where
  "day d v = \<lparr>s_date = Date 2024 1 d, s_value = v, s_confidence = 9/10\<rparr>"

definition single_series :: "sample list" where
  "single_series = [day 1 (1/2)]"

definition hump_series :: "sample list" where
  "hump_series =
     [day 1 0, day 2 0, day 3 0, day 4 60, day 5 60, day 6 60, day 7 0, day 8 0, day 9 0]"

definition tail_series :: "sample list" where
  "tail_series =
     [day 1 0, day 2 0, day 3 0, day 4 60, day 5 60, day 6 60, day 7 0, day 8 0,
      day 9 0, day 10 0, day 11 0]"

definition dip_series :: "sample list" where
  "dip_series =
     [day 1 60, day 2 60, day 3 60, day 4 60, day 5 0, day 6 0, day 7 0, day 8 60,
      day 9 60, day 10 60]"

definition ramp :: "sample list" where
  "ramp = [day 1 0, day 2 1, day 3 2, day 4 3, day 5 4, day 6 5]"


text \<open>A yearly record with a peak only, and a source with one sample in each of three years.\<close>

definition peakOnly :: "int \<Rightarrow> date \<Rightarrow> yearly_record" where
  "peakOnly y d = \<lparr>year = y, onset_date = None, peak_date = Some d, end_date = None,
                   peak_value = Some (1/2), duration_days = None, y_confidence = 3/10\<rparr>"

definition one_sample_source :: sample_source where
  "one_sample_source la lo startDate stopDate it =
     (if d_year startDate = 2021
      then [\<lparr>s_date = Date 2021 10 27, s_value = 1/2, s_confidence = 9/10\<rparr>]
      else if d_year startDate = 2022
      then [\<lparr>s_date = Date 2022 4 10, s_value = 1/2, s_confidence = 9/10\<rparr>]
      else if d_year startDate = 2023
      then [\<lparr>s_date = Date 2023 7 19, s_value = 1/2, s_confidence = 9/10\<rparr>]
      else [])"

section \<open>Properties of the smoother\<close>





lemma movingAverage_length: "length (movingAverage vs w) = length vs"
  by (simp add: movingAverage_def)






section \<open>Properties of the bloom detector\<close>

lemma find_Some_member: "find P xs = Some x \<Longrightarrow> x \<in> set xs \<and> P x"
  by (induction xs) (auto split: if_splits)

lemma fold_peak_bound:
  assumes "best < n" and "\<forall>p \<in> set ps. fst p < n"
  shows "fold (\<lambda>(i, v) best. if v > vs ! best then i else best) ps best < n"
  using assms
proof (induction ps arbitrary: best)
  case Nil
  then show ?case by simp
next
  case (Cons p ps)
  obtain i v where p: "p = (i, v)" by (cases p)
  have "i < n" using Cons.prems(2) p by simp
  then show ?case using Cons p by simp
qed

lemma peakIdx_less:
  assumes "vs \<noteq> []"
  shows "peakIdx vs < length vs"
  unfolding peakIdx_def
  using assms by (intro fold_peak_bound) (auto simp: in_set_enumerate_eq)

lemma onsetIdx_range: "- 1 \<le> onsetIdx vs t \<and> onsetIdx vs t < int (length vs)"
  by (auto simp: onsetIdx_def split: option.splits dest!: find_Some_member)

lemma endIdx_range: "- 1 \<le> endIdx vs t pk \<and> endIdx vs t pk < int (length vs)"
  by (auto simp: endIdx_def split: option.splits dest!: find_Some_member)

text \<open>
  With smoothed values of the length of a non-empty series, every read is in range and
  the detector returns the event below.
\<close>

lemma detectBloom_run:
  assumes "series \<noteq> []" and "length sm = length series"
  shows "detectBloom series sm =
    Inr \<lparr>onsetDate = (if 0 \<le> onsetIdx sm (threshold_of sm)
                       then Some (s_date (series ! nat (onsetIdx sm (threshold_of sm))))
                       else None),
         peakDate = Some (s_date (series ! peakIdx sm)),
         endDate = (if 0 \<le> endIdx sm (threshold_of sm) (peakIdx sm)
                     then Some (s_date (series ! nat (endIdx sm (threshold_of sm) (peakIdx sm))))
                     else None),
         peakValue = Some (sm ! peakIdx sm),
         durationDays =
           (if 0 \<le> onsetIdx sm (threshold_of sm) \<and> 0 \<le> endIdx sm (threshold_of sm) (peakIdx sm)
            then Some (max 0
                   (epochDay (s_date (series ! nat (endIdx sm (threshold_of sm) (peakIdx sm))))
                    - epochDay (s_date (series ! nat (onsetIdx sm (threshold_of sm))))))
            else None),
         confidence = max 0.5 (min 0.95 (0.5 + max 0 (p90_of sm - p10_of sm) * 0.8))
            * (if 0 \<le> onsetIdx sm (threshold_of sm)
                  \<and> 0 \<le> endIdx sm (threshold_of sm) (peakIdx sm)
               then 1 else 0.6)\<rparr>"
proof -
  have ne: "sm \<noteq> []" using assms by auto
  have pk: "peakIdx sm < length series" using peakIdx_less [OF ne] assms(2) by simp
  have on: "\<not> (0 \<le> onsetIdx sm (threshold_of sm)
              \<and> length series \<le> nat (onsetIdx sm (threshold_of sm)))"
    using onsetIdx_range [of sm "threshold_of sm"] assms(2) by auto
  have en: "\<not> (0 \<le> endIdx sm (threshold_of sm) (peakIdx sm)
              \<and> length series \<le> nat (endIdx sm (threshold_of sm) (peakIdx sm)))"
    using endIdx_range [of sm "threshold_of sm" "peakIdx sm"] assms(2) by auto
  show ?thesis
    unfolding detectBloom_def Let_def
    using assms(1) ne pk on en by simp
qed

lemma smoothSeries_length: "length (smoothSeries series) = length series"
  by (simp add: smoothSeries_def movingAverage_length)

text \<open>
  Claim C7. For the empty series the detector does not fail: it returns the neutral
  event, whose onset, peak and end dates, peak value and duration are all null and whose
  confidence is 0.5, whatever the smoothed values are.
\<close>

theorem detectBloom_empty_series:
  "detectBloom [] smoothedValues = Inr emptyDetection
   \<and> emptyDetection = \<lparr>onsetDate = None, peakDate = None, endDate = None,
                        peakValue = None, durationDays = None, confidence = 1/2\<rparr>"
  by (simp add: detectBloom_def emptyDetection_def)

subsection \<open>The end of the bloom\<close>

lemma find_rev_upt_Some:
  assumes "lo \<le> i" and "i < hi" and "P i" and "\<forall>j \<in> set [i + 1 ..< hi]. \<not> P j"
  shows "find P (rev [lo ..< hi]) = Some i"
  using assms
proof (induction hi)
  case 0
  then show ?case by simp
next
  case (Suc hi)
  show ?case
  proof (cases "i = hi")
    case True
    then show ?thesis using Suc.prems by simp
  next
    case False
    then have "i < hi" using Suc.prems(2) by simp
    moreover have "\<not> P hi" using Suc.prems(4) \<open>i < hi\<close> by simp
    moreover have "lo \<le> hi" using Suc.prems(1) \<open>i < hi\<close> by simp
    moreover have "\<forall>j \<in> set [i + 1 ..< hi]. \<not> P j" using Suc.prems(4) by simp
    ultimately show ?thesis using Suc.IH Suc.prems(1,3) by simp
  qed
qed

lemma find_rev_upt_cases:
  "(find P (rev [lo ..< hi]) = None \<and> (\<forall>i \<in> set [lo ..< hi]. \<not> P i))
   \<or> (\<exists>i. find P (rev [lo ..< hi]) = Some i \<and> lo \<le> i \<and> i < hi \<and> P i
            \<and> (\<forall>j \<in> set [i + 1 ..< hi]. \<not> P j))"
proof (cases "\<exists>i \<in> set [lo ..< hi]. P i")
  case False
  then show ?thesis by (simp add: find_None_iff)
next
  case True
  define i where "i = Max {k \<in> set [lo ..< hi]. P k}"
  have fin: "finite {k \<in> set [lo ..< hi]. P k}" by simp
  have ne: "{k \<in> set [lo ..< hi]. P k} \<noteq> {}" using True by auto
  have mem: "i \<in> {k \<in> set [lo ..< hi]. P k}" unfolding i_def using fin ne by (rule Max_in)
  have top: "\<forall>j \<in> set [i + 1 ..< hi]. \<not> P j"
  proof (intro ballI notI)
    fix j assume j: "j \<in> set [i + 1 ..< hi]" and "P j"
    then have "j \<in> {k \<in> set [lo ..< hi]. P k}" using mem by auto
    then have "j \<le> i" unfolding i_def using fin by (simp add: Max_ge)
    then show False using j by simp
  qed
  have "find P (rev [lo ..< hi]) = Some i"
    using mem top by (intro find_rev_upt_Some) auto
  then show ?thesis using mem top by auto
qed

lemma endIdx_first_falling:
  assumes "firstFallingCrossing vs t pk i"
  shows "endIdx vs t pk = int i + 1"
proof -
  have "find (\<lambda>i. vs ! (i + 1) < t \<and> vs ! i \<ge> t) (rev [pk + 1 ..< length vs - 1]) = Some i"
    using assms
    by (intro find_rev_upt_Some) (auto simp: firstFallingCrossing_def fallingCrossing_def)
  then show ?thesis by (simp add: endIdx_def)
qed

lemma endIdx_no_falling:
  assumes "noFallingCrossing vs t pk"
  shows "endIdx vs t pk = - 1"
proof -
  have "find (\<lambda>i. vs ! (i + 1) < t \<and> vs ! i \<ge> t) (rev [pk + 1 ..< length vs - 1]) = None"
    using assms by (auto simp: find_None_iff noFallingCrossing_def fallingCrossing_def)
  then show ?thesis by (simp add: endIdx_def)
qed

lemma falling_cases:
  "noFallingCrossing vs t pk \<or> (\<exists>i. firstFallingCrossing vs t pk i)"
proof -
  consider "\<forall>i \<in> set [pk + 1 ..< length vs - 1]. \<not> fallingCrossing vs t i"
    | i where "pk + 1 \<le> i" "i < length vs - 1" "fallingCrossing vs t i"
        "\<forall>j \<in> set [i + 1 ..< length vs - 1]. \<not> fallingCrossing vs t j"
    using find_rev_upt_cases [of "fallingCrossing vs t" "pk + 1" "length vs - 1"] by blast
  then show ?thesis
  proof cases
    case 1
    then show ?thesis by (simp add: noFallingCrossing_def)
  next
    case 2
    then have "firstFallingCrossing vs t pk i" by (simp add: firstFallingCrossing_def)
    then show ?thesis by blast
  qed
qed

text \<open>
  Claim C2, as the code has it. For every series and smoothed values of the same
  length \<open>n > 0\<close>: when \<open>i\<close> is the first index, scanning from \<open>n - 2\<close> down to
  \<open>peakIdx + 1\<close>, with \<open>smoothed[i+1] < threshold \<le> smoothed[i]\<close>, the end index is
  \<open>i + 1\<close> and the end date is the date of sample \<open>i + 1\<close>, the first sample below the
  threshold after the last one at or above it; when there is no such crossing the end
  index is \<open>-1\<close> and the end date is null. One of the two cases always holds.
\<close>

theorem detectBloom_end_is_first_below:
  assumes "length sm = length series" and "series \<noteq> []"
  shows "\<exists>ev. detectBloom series sm = Inr ev
     \<and> (\<forall>i. firstFallingCrossing sm (threshold_of sm) (peakIdx sm) i
           \<longrightarrow> endIdx sm (threshold_of sm) (peakIdx sm) = int i + 1
               \<and> endDate ev = Some (s_date (series ! (i + 1))))
     \<and> (noFallingCrossing sm (threshold_of sm) (peakIdx sm)
           \<longrightarrow> endIdx sm (threshold_of sm) (peakIdx sm) = - 1 \<and> endDate ev = None)
     \<and> (noFallingCrossing sm (threshold_of sm) (peakIdx sm)
          \<or> (\<exists>i. firstFallingCrossing sm (threshold_of sm) (peakIdx sm) i))"
proof -
  let ?t = "threshold_of sm" and ?pk = "peakIdx sm"
  have first: "endIdx sm ?t ?pk = int i + 1" if "firstFallingCrossing sm ?t ?pk i" for i
    using that by (rule endIdx_first_falling)
  have none: "endIdx sm ?t ?pk = - 1" if "noFallingCrossing sm ?t ?pk"
    using that by (rule endIdx_no_falling)
  show ?thesis
    unfolding detectBloom_run [OF assms(2) assms(1)]
    using first none falling_cases [of sm ?t ?pk] by (auto simp: nat_add_distrib)
qed

theorem detectBloom_end_is_first_below_witness:
  "length (smoothSeries tail_series) = length tail_series \<and> tail_series \<noteq> []
   \<and> firstFallingCrossing (smoothSeries tail_series) (threshold_of (smoothSeries tail_series))
        (peakIdx (smoothSeries tail_series)) 6
   \<and> endIdx (smoothSeries tail_series) (threshold_of (smoothSeries tail_series))
        (peakIdx (smoothSeries tail_series)) = 7
   \<and> endDate (projr (detectBloom tail_series (smoothSeries tail_series))) = Some (Date 2024 1 8)
   \<and> length (smoothSeries single_series) = length single_series \<and> single_series \<noteq> []
   \<and> noFallingCrossing (smoothSeries single_series) (threshold_of (smoothSeries single_series))
        (peakIdx (smoothSeries single_series))
   \<and> endDate (projr (detectBloom single_series (smoothSeries single_series))) = None"
proof -
  let ?sm = "smoothSeries tail_series" and ?s1 = "smoothSeries single_series"
  have len: "length ?sm = length tail_series" by code_simp
  have ne: "tail_series \<noteq> []" by code_simp
  have f: "firstFallingCrossing ?sm (threshold_of ?sm) (peakIdx ?sm) 6" by code_simp
  have d: "s_date (tail_series ! (6 + 1)) = Date 2024 1 8" by code_simp
  from detectBloom_end_is_first_below [OF len ne] obtain ev where
    ev: "detectBloom tail_series ?sm = Inr ev"
    and e: "endIdx ?sm (threshold_of ?sm) (peakIdx ?sm) = int 6 + 1"
           "endDate ev = Some (s_date (tail_series ! (6 + 1)))"
    using f by blast
  have len1: "length ?s1 = length single_series" by code_simp
  have ne1: "single_series \<noteq> []" by code_simp
  have n1: "noFallingCrossing ?s1 (threshold_of ?s1) (peakIdx ?s1)" by code_simp
  from detectBloom_end_is_first_below [OF len1 ne1] obtain ev1 where
    ev1: "detectBloom single_series ?s1 = Inr ev1" and e1: "endDate ev1 = None"
    using n1 by blast
  show ?thesis using len ne f d ev e len1 ne1 n1 ev1 e1 by simp
qed

text \<open>
  The end date is not the date of the crossing index itself: on the smoothed hump the
  scan starts at \<open>i = 7 = n - 2\<close>, which is a falling crossing above the peak index 3,
  and the end date returned is that of sample 8 (9 January), not of sample 7 (8 January).
\<close>

theorem detectBloom_end_index_counterexample:
  "length (smoothSeries hump_series) = 9
   \<and> peakIdx (smoothSeries hump_series) = 3
   \<and> fallingCrossing (smoothSeries hump_series) (threshold_of (smoothSeries hump_series)) 7
   \<and> s_date (hump_series ! 7) = Date 2024 1 8
   \<and> detectBloom hump_series (smoothSeries hump_series) =
       Inr \<lparr>onsetDate = Some (Date 2024 1 2), peakDate = Some (Date 2024 1 4),
            endDate = Some (Date 2024 1 9), peakValue = Some 36,
            durationDays = Some 7, confidence = 19 / 20\<rparr>
   \<and> Date 2024 1 9 \<noteq> Date 2024 1 8"
  by code_simp

subsection \<open>Confidence\<close>

lemma clamp_bounds:
  fixes x :: real
  shows "1/2 \<le> max 0.5 (min 0.95 x) \<and> max 0.5 (min 0.95 x) \<le> 95/100"
  by (simp add: max_def min_def)

text \<open>
  Claim C3, as the code has it. For every series and smoothed values of the same length,
  the confidence of the event lies in \<open>[0.3, 0.95]\<close>: in \<open>[0.5, 0.95]\<close> when the onset,
  peak and end dates are all present, and in \<open>[0.3, 0.57]\<close> when one of them is null,
  where the clamped value is multiplied by the completeness 0.6.
\<close>

theorem detectBloom_confidence_range:
  assumes "length sm = length series"
  shows "\<exists>ev. detectBloom series sm = Inr ev
     \<and> 3/10 \<le> confidence ev \<and> confidence ev \<le> 95/100
     \<and> (onsetDate ev \<noteq> None \<and> peakDate ev \<noteq> None \<and> endDate ev \<noteq> None
          \<longrightarrow> 1/2 \<le> confidence ev)
     \<and> (onsetDate ev = None \<or> peakDate ev = None \<or> endDate ev = None
          \<longrightarrow> confidence ev \<le> 57/100)"
proof (cases "series = []")
  case True
  then show ?thesis by (simp add: detectBloom_def emptyDetection_def)
next
  case False
  define c where "c = max 0.5 (min 0.95 (0.5 + max 0 (p90_of sm - p10_of sm) * 0.8))"
  have c: "1/2 \<le> c \<and> c \<le> 95/100" unfolding c_def by (rule clamp_bounds)
  then have "3/10 \<le> c * 0.6 \<and> c * 0.6 \<le> 57/100" by simp
  then show ?thesis
    unfolding detectBloom_run [OF False assms] c_def [symmetric]
    using c by auto
qed

theorem detectBloom_confidence_range_witness:
  "length (smoothSeries hump_series) = length hump_series
   \<and> confidence (projr (detectBloom hump_series (smoothSeries hump_series))) = 19/20
   \<and> (1/2 :: real) \<le> 19/20 \<and> (19/20 :: real) \<le> 95/100
   \<and> length (smoothSeries dip_series) = length dip_series
   \<and> length (smoothSeries single_series) = length single_series
   \<and> confidence (projr (detectBloom single_series (smoothSeries single_series))) = 3/10
   \<and> (3/10 :: real) \<le> 57/100"
proof -
  have l1: "length (smoothSeries hump_series) = length hump_series" by code_simp
  have l2: "length (smoothSeries dip_series) = length dip_series" by code_simp
  have l3: "length (smoothSeries single_series) = length single_series" by code_simp
  have d1: "detectBloom hump_series (smoothSeries hump_series) =
       Inr \<lparr>onsetDate = Some (Date 2024 1 2), peakDate = Some (Date 2024 1 4),
            endDate = Some (Date 2024 1 9), peakValue = Some 36,
            durationDays = Some 7, confidence = 19 / 20\<rparr>" by code_simp
  have d3: "detectBloom single_series (smoothSeries single_series) =
       Inr \<lparr>onsetDate = None, peakDate = Some (Date 2024 1 1), endDate = None,
            peakValue = Some (1 / 2), durationDays = None, confidence = 3 / 10\<rparr>" by code_simp
  from detectBloom_confidence_range [OF l1] d1
  have "(1/2 :: real) \<le> 19/20 \<and> (19/20 :: real) \<le> 95/100" by auto
  moreover from detectBloom_confidence_range [OF l3] d3
  have "(3/10 :: real) \<le> 57/100" by auto
  ultimately show ?thesis using l1 l2 l3 d1 d3 by simp
qed

text \<open>
  A series of one sample has no onset and no end: its confidence is \<open>0.5 \<cdot> 0.6 = 0.3\<close>,
  below 0.5.
\<close>

theorem detectBloom_confidence_counterexample:
  "detectBloom single_series (smoothSeries single_series) =
     Inr \<lparr>onsetDate = None, peakDate = Some (Date 2024 1 1), endDate = None,
          peakValue = Some (1 / 2), durationDays = None, confidence = 3 / 10\<rparr>
   \<and> \<not> ((1/2 :: real) \<le> 3 / 10)"
  by code_simp

subsection \<open>Duration\<close>

text \<open>
  Claim C4, as the code has it. For every series and smoothed values of the same length:
  when the onset and end dates are both present, the duration is the number of days from
  the onset date to the end date, floored at 0, so it is never negative and equals the
  difference whenever the end is not before the onset; when either date is null the
  duration is null.
\<close>

theorem detectBloom_duration_floored:
  assumes "length sm = length series"
  shows "\<exists>ev. detectBloom series sm = Inr ev
     \<and> (\<forall>od ed. onsetDate ev = Some od \<and> endDate ev = Some ed
          \<longrightarrow> durationDays ev = Some (max 0 (epochDay ed - epochDay od)))
     \<and> (\<forall>dd. durationDays ev = Some dd \<longrightarrow> 0 \<le> dd)
     \<and> (onsetDate ev = None \<or> endDate ev = None \<longrightarrow> durationDays ev = None)"
proof (cases "series = []")
  case True
  then show ?thesis by (simp add: detectBloom_def emptyDetection_def)
next
  case False
  show ?thesis
    unfolding detectBloom_run [OF False assms] by auto
qed

theorem detectBloom_duration_floored_witness:
  "length (smoothSeries hump_series) = length hump_series
   \<and> onsetDate (projr (detectBloom hump_series (smoothSeries hump_series))) = Some (Date 2024 1 2)
   \<and> endDate (projr (detectBloom hump_series (smoothSeries hump_series))) = Some (Date 2024 1 9)
   \<and> durationDays (projr (detectBloom hump_series (smoothSeries hump_series)))
       = Some (max 0 (epochDay (Date 2024 1 9) - epochDay (Date 2024 1 2)))
   \<and> max 0 (epochDay (Date 2024 1 9) - epochDay (Date 2024 1 2)) = 7
   \<and> length (smoothSeries single_series) = length single_series
   \<and> onsetDate (projr (detectBloom single_series (smoothSeries single_series))) = None
   \<and> durationDays (projr (detectBloom single_series (smoothSeries single_series))) = None"
proof -
  have l1: "length (smoothSeries hump_series) = length hump_series" by code_simp
  have l3: "length (smoothSeries single_series) = length single_series" by code_simp
  have o1: "onsetDate (projr (detectBloom hump_series (smoothSeries hump_series)))
              = Some (Date 2024 1 2)" by code_simp
  have e1: "endDate (projr (detectBloom hump_series (smoothSeries hump_series)))
              = Some (Date 2024 1 9)" by code_simp
  have o3: "onsetDate (projr (detectBloom single_series (smoothSeries single_series))) = None"
    by code_simp
  have m: "max 0 (epochDay (Date 2024 1 9) - epochDay (Date 2024 1 2)) = 7" by code_simp
  from detectBloom_duration_floored [OF l1] o1 e1
  have a: "durationDays (projr (detectBloom hump_series (smoothSeries hump_series)))
       = Some (max 0 (epochDay (Date 2024 1 9) - epochDay (Date 2024 1 2)))" by auto
  from detectBloom_duration_floored [OF l3] o3
  have b: "durationDays (projr (detectBloom single_series (smoothSeries single_series))) = None"
    by auto
  show ?thesis using l1 l3 o1 e1 o3 m a b by simp
qed

text \<open>
  A series that starts high, dips and recovers has its last falling crossing before its
  first rising crossing: the end date (4 January) is five days before the onset date
  (9 January), and the duration is 0, not the difference \<open>-5\<close>.
\<close>

theorem detectBloom_duration_counterexample:
  "detectBloom dip_series (smoothSeries dip_series) =
     Inr \<lparr>onsetDate = Some (Date 2024 1 9), peakDate = Some (Date 2024 1 1),
          endDate = Some (Date 2024 1 4), peakValue = Some 60,
          durationDays = Some 0, confidence = 19 / 20\<rparr>
   \<and> epochDay (Date 2024 1 4) - epochDay (Date 2024 1 9) = - 5
   \<and> (0 :: int) \<noteq> - 5"
  by code_simp

subsection \<open>Peak\<close>

text \<open>
  Claim C10. For every series and smoothed values of the same length, the peak index is
  a valid index whenever the series is not empty, and the peak date and the peak value
  of the event are null exactly when the series is empty; for a non-empty series they
  are the date and the smoothed value at the peak index, also when the onset and the end
  are unresolved.
\<close>

theorem detectBloom_peak_present:
  assumes "length sm = length series"
  shows "\<exists>ev. detectBloom series sm = Inr ev
     \<and> (series \<noteq> [] \<longrightarrow> peakIdx sm < length series
           \<and> peakDate ev = Some (s_date (series ! peakIdx sm))
           \<and> peakValue ev = Some (sm ! peakIdx sm))
     \<and> (peakDate ev = None \<longleftrightarrow> series = [])
     \<and> (peakValue ev = None \<longleftrightarrow> series = [])"
proof (cases "series = []")
  case True
  then show ?thesis by (simp add: detectBloom_def emptyDetection_def)
next
  case False
  then have "sm \<noteq> []" using assms by auto
  then have "peakIdx sm < length series" using peakIdx_less assms by metis
  then show ?thesis
    unfolding detectBloom_run [OF False assms] using False by simp
qed

theorem detectBloom_peak_present_witness:
  "length (smoothSeries single_series) = length single_series \<and> single_series \<noteq> []
   \<and> onsetDate (projr (detectBloom single_series (smoothSeries single_series))) = None
   \<and> endDate (projr (detectBloom single_series (smoothSeries single_series))) = None
   \<and> peakDate (projr (detectBloom single_series (smoothSeries single_series)))
       = Some (Date 2024 1 1)
   \<and> peakValue (projr (detectBloom single_series (smoothSeries single_series))) = Some (1/2)"
proof -
  let ?sm = "smoothSeries single_series"
  have l: "length ?sm = length single_series" by code_simp
  have ne: "single_series \<noteq> []" by code_simp
  have o: "onsetDate (projr (detectBloom single_series ?sm)) = None" by code_simp
  have e: "endDate (projr (detectBloom single_series ?sm)) = None" by code_simp
  have i: "peakIdx ?sm = 0" by code_simp
  have d: "s_date (single_series ! 0) = Date 2024 1 1" by code_simp
  have v: "?sm ! 0 = 1/2" by code_simp
  from detectBloom_peak_present [OF l] ne i d v
  have "peakDate (projr (detectBloom single_series ?sm)) = Some (Date 2024 1 1)
      \<and> peakValue (projr (detectBloom single_series ?sm)) = Some (1/2)" by auto
  then show ?thesis using l ne o e by simp
qed

section \<open>Properties of the yearly aggregation\<close>

lemma js_round_int: "js_round (real_of_int k) = k"
  by (simp add: js_round_def)

lemma detectBloom_smoothed_ok: "\<exists>ev. detectBloom series (smoothSeries series) = Inr ev"
proof (cases "series = []")
  case True
  then show ?thesis by (simp add: detectBloom_def)
next
  case False
  from detectBloom_run [OF False smoothSeries_length] show ?thesis by blast
qed

text \<open>
  The loop never leaves through a failure: it pushes one record for each year, in order.
\<close>

lemma perYearLoop_ok:
  "\<exists>rs. perYearLoop fetch ys acc = Inr (acc @ rs) \<and> map year rs = ys"
proof (induction ys arbitrary: acc)
  case Nil
  show ?case by simp
next
  case (Cons y ys)
  obtain ev where ev: "detectBloom (fetch y) (smoothSeries (fetch y)) = Inr ev"
    using detectBloom_smoothed_ok by blast
  obtain rs where
    rs: "perYearLoop fetch ys (acc @ [yearRecord y ev]) = Inr ((acc @ [yearRecord y ev]) @ rs)"
        "map year rs = ys"
    using Cons.IH by blast
  have "perYearLoop fetch (y # ys) acc = Inr (acc @ (yearRecord y ev # rs))"
    using ev rs(1) by (simp add: Let_def)
  moreover have "map year (yearRecord y ev # rs) = y # ys"
    using rs(2) by (simp add: yearRecord_def)
  ultimately show ?case by (intro exI [of _ "yearRecord y ev # rs"]) simp
qed

lemma summarize_median:
  "median_peak_day_of_year (summarize records) = middleElement (peakDaysOfYear records)"
proof -
  have "map (\<lambda>y. dayOfYear (the (peak_date y))) (filter (\<lambda>y. peak_date y \<noteq> None) records)
        = peakDaysOfYear records"
    by (simp add: peakDaysOfYear_def List.map_filter_def comp_def)
  then show ?thesis
    unfolding summarize_def Let_def middleElement_def by (simp add: js_round_int)
qed

lemma summarize_bloom_count:
  "years_with_bloom (summarize records) = length (peakDaysOfYear records)"
  by (simp add: summarize_def Let_def peakDaysOfYear_def List.map_filter_def)

text \<open>
  Claim C6. For every source and year range the aggregation returns a payload with one
  record for each year, whose median peak day of the year is the element at index
  \<open>\<lfloor>count/2\<rfloor>\<close> of the ascending-sorted days of the year of the peaks of the records
  that have a peak date (one element, no average; the rounding leaves a whole number
  unchanged), and null when no record has a peak; for three years with peak days of the
  year 300, 100 and 200 it is 200.
\<close>

theorem median_peak_day_is_middle_element:
  "(\<exists>payload. computePhenology src la lo sy ey it = Inr payload
       \<and> map year (years payload) = [sy .. ey]
       \<and> median_peak_day_of_year (summary payload)
           = middleElement (peakDaysOfYear (years payload))
       \<and> years_with_bloom (summary payload) = length (peakDaysOfYear (years payload)))
   \<and> middleElement [] = None
   \<and> middleElement [300, 100, 200] = Some 200
   \<and> peakDaysOfYear [peakOnly 2021 (Date 2021 10 27), peakOnly 2022 (Date 2022 4 10),
                      peakOnly 2023 (Date 2023 7 19)] = [300, 100, 200]
   \<and> median_peak_day_of_year
       (summarize [peakOnly 2021 (Date 2021 10 27), peakOnly 2022 (Date 2022 4 10),
                   peakOnly 2023 (Date 2023 7 19)]) = Some 200"
proof -
  obtain rs where
    rs: "perYearLoop (\<lambda>y. src la lo (Date y 1 1) (Date y 12 31) it) [sy .. ey] [] = Inr ([] @ rs)"
        "map year rs = [sy .. ey]"
    using perYearLoop_ok by blast
  have a: "\<exists>payload. computePhenology src la lo sy ey it = Inr payload
       \<and> map year (years payload) = [sy .. ey]
       \<and> median_peak_day_of_year (summary payload)
           = middleElement (peakDaysOfYear (years payload))
       \<and> years_with_bloom (summary payload) = length (peakDaysOfYear (years payload))"
    using rs by (simp add: computePhenology_def summarize_median summarize_bloom_count)
  have b: "middleElement [] = None" by code_simp
  have c: "middleElement [300, 100, 200] = Some 200" by code_simp
  have d: "peakDaysOfYear [peakOnly 2021 (Date 2021 10 27), peakOnly 2022 (Date 2022 4 10),
                      peakOnly 2023 (Date 2023 7 19)] = [300, 100, 200]" by code_simp
  have e: "median_peak_day_of_year
       (summarize [peakOnly 2021 (Date 2021 10 27), peakOnly 2022 (Date 2022 4 10),
                   peakOnly 2023 (Date 2023 7 19)]) = Some 200" by code_simp
  show ?thesis using a b c d e by blast
qed

theorem median_peak_day_is_middle_element_witness:
  "peakDaysOfYear (years (projr (computePhenology one_sample_source ''10'' ''20'' 2021 2023 ''NDVI'')))
     = [300, 100, 200]
   \<and> median_peak_day_of_year
       (summary (projr (computePhenology one_sample_source ''10'' ''20'' 2021 2023 ''NDVI'')))
     = Some 200"
proof -
  let ?p = "computePhenology one_sample_source ''10'' ''20'' 2021 2023 ''NDVI''"
  have d: "peakDaysOfYear (years (projr ?p)) = [300, 100, 200]" by code_simp
  have m: "middleElement [300, 100, 200] = Some 200" by code_simp
  from median_peak_day_is_middle_element [of one_sample_source "''10''" "''20''" 2021 2023 "''NDVI''"]
  obtain payload where "?p = Inr payload"
    and "median_peak_day_of_year (summary payload) = middleElement (peakDaysOfYear (years payload))"
    by blast
  then have "median_peak_day_of_year (summary (projr ?p))
               = middleElement (peakDaysOfYear (years (projr ?p)))" by simp
  then show ?thesis using d m by simp
qed

text \<open>
  Claim C5, as the code has it. When the handler is invoked with all parameters present
  and \<open>end_year < start_year\<close>, it answers with status 400 and the message
  \<^verbatim>\<open>end_year must be >= start_year\<close>, and leaves the cache as it is. The aggregation
  behind the guard, run on such a range, does not fail: it returns an empty list of
  years, \<open>num_years\<close> 0, \<open>years_with_bloom\<close> 0 and a null median.
\<close>

theorem phenology_inverted_range_rejected:
  assumes "ey < sy"
  shows "phenology src cache \<lparr>lat = Some la, lon = Some lo, start_year = Some sy,
                               end_year = Some ey, index_type = it\<rparr>
           = (Error 400 ''end_year must be >= start_year'', cache)
       \<and> computePhenology src la lo sy ey t =
           Inr \<lparr>location = (la, lo), p_index_type = t, years = [],
                summary = \<lparr>num_years = 0, years_with_bloom = 0,
                           median_peak_day_of_year = None\<rparr>\<rparr>"
  using assms by (simp add: phenology_def computePhenology_def summarize_def)

theorem phenology_inverted_range_rejected_witness:
  "(2020 :: int) < 2021
   \<and> snd (phenology one_sample_source Map.empty
            \<lparr>lat = Some ''10'', lon = Some ''20'', start_year = Some 2021,
             end_year = Some 2020, index_type = Some ''EVI''\<rparr>) = Map.empty
   \<and> computePhenology one_sample_source ''10'' ''20'' 2021 2020 ''EVI'' =
       Inr \<lparr>location = (''10'', ''20''), p_index_type = ''EVI'', years = [],
            summary = \<lparr>num_years = 0, years_with_bloom = 0,
                       median_peak_day_of_year = None\<rparr>\<rparr>"
proof -
  have h: "(2020 :: int) < 2021" by simp
  show ?thesis
    using h phenology_inverted_range_rejected [OF h, of one_sample_source Map.empty
      "''10''" "''20''" "Some ''EVI''" "''EVI''"]
    by simp
qed

text \<open>
  The handler does answer an inverted range with an error: years 2021 to 2020.
\<close>

theorem phenology_inverted_range_counterexample:
  "fst (phenology one_sample_source Map.empty
          \<lparr>lat = Some ''10'', lon = Some ''20'', start_year = Some 2021,
           end_year = Some 2020, index_type = None\<rparr>)
     = Error 400 ''end_year must be >= start_year''"
  by (simp add: phenology_def)

section \<open>Properties of the trend analyzer\<close>

lemma ramp_trend: "calculateLinearTrend (map s_value ramp) = Some (- 33 / 7)"
  by code_simp

lemma ramp_magnitude: "toFixed4 \<bar>- 33 / 7\<bar> = 47143 / 10000"
  by code_simp

lemma ramp_ols: "olsSlope (map s_value ramp) = 1"
  by code_simp

text \<open>
  Claim C1, evaluated on the code. For the series of values 0, 1, 2, 3, 4, 5 the least
  squares slope is 1, but \<^verbatim>\<open>calculateLinearTrend\<close> returns \<open>-33/7\<close>, because \<open>sumY\<close> is
  the sum of \<open>val \<cdot> i\<close> instead of the sum of \<open>val\<close>; the report is Decreasing, of
  magnitude 4.7143, Not significant, whatever the random confidence is.
\<close>

theorem analyzeTrends_ramp_reports_decreasing:
  "map s_value ramp = [0, 1, 2, 3, 4, 5]
   \<and> analyzeTrends ramp rnd =
       Trend \<lparr>direction = ''Decreasing'', magnitude = 47143 / 10000,
              t_confidence = 0.85 + rnd * 0.1, significance = ''Not significant''\<rparr>
   \<and> olsSlope (map s_value ramp) = 1"
proof -
  have v: "map s_value ramp = [0, 1, 2, 3, 4, 5]" by code_simp
  have l: "\<not> length ramp < 2" by code_simp
  show ?thesis
    using v l ramp_trend ramp_magnitude ramp_ols by (simp add: analyzeTrends_def)
qed

section \<open>Properties of the anomaly detector\<close>





end
